theory Spec2Isabelle
  imports Complex_Main
begin

section \<open>JavaScript numbers\<close>

text \<open>
  A JavaScript \<^verbatim>\<open>number\<close> is an IEEE-754 double. The model keeps the three special
  values of the format and takes every finite value as a real number: rounding, overflow of
  a finite result and the sign of zero are idealised away (a zero is always \<open>+0\<close>), while
  everything that produces or consumes \<open>Infinity\<close> and \<open>NaN\<close> follows the language
  definition. Decimal literals of the source (\<open>0.01\<close>, \<open>0.3\<close>, ...) are the rationals
  they denote and \<^verbatim>\<open>Math.PI\<close> is \<open>pi\<close>. What is proved over these numbers
  is kept to statements that do not depend on the exactness of finite results; where the
  rounding itself decides a statement, the operations involved are given a second time, with
  the rounding of the format (section Double precision).
\<close>

datatype jsnum = Num real | PosInf | NegInf | NaN

instantiation jsnum :: "{plus, minus, uminus, times, inverse, ord}"
begin

fun uminus_jsnum :: "jsnum \<Rightarrow> jsnum" where
  "uminus_jsnum (Num a) = Num (- a)"
| "uminus_jsnum PosInf = NegInf"
| "uminus_jsnum NegInf = PosInf"
| "uminus_jsnum NaN = NaN"

fun plus_jsnum :: "jsnum \<Rightarrow> jsnum \<Rightarrow> jsnum" where
  "plus_jsnum NaN y = NaN"
| "plus_jsnum x NaN = NaN"
| "plus_jsnum (Num a) (Num b) = Num (a + b)"
| "plus_jsnum PosInf NegInf = NaN"
| "plus_jsnum NegInf PosInf = NaN"
| "plus_jsnum PosInf y = PosInf"
| "plus_jsnum x PosInf = PosInf"
| "plus_jsnum NegInf y = NegInf"
| "plus_jsnum x NegInf = NegInf"

definition minus_jsnum :: "jsnum \<Rightarrow> jsnum \<Rightarrow> jsnum" where
  "minus_jsnum x y = x + (- y)"

fun times_jsnum :: "jsnum \<Rightarrow> jsnum \<Rightarrow> jsnum" where
  "times_jsnum NaN y = NaN"
| "times_jsnum x NaN = NaN"
| "times_jsnum (Num a) (Num b) = Num (a * b)"
| "times_jsnum (Num a) PosInf = (if a = 0 then NaN else if 0 < a then PosInf else NegInf)"
| "times_jsnum (Num a) NegInf = (if a = 0 then NaN else if 0 < a then NegInf else PosInf)"
| "times_jsnum PosInf (Num b) = (if b = 0 then NaN else if 0 < b then PosInf else NegInf)"
| "times_jsnum NegInf (Num b) = (if b = 0 then NaN else if 0 < b then NegInf else PosInf)"
| "times_jsnum PosInf PosInf = PosInf"
| "times_jsnum PosInf NegInf = NegInf"
| "times_jsnum NegInf PosInf = NegInf"
| "times_jsnum NegInf NegInf = PosInf"

fun divide_jsnum :: "jsnum \<Rightarrow> jsnum \<Rightarrow> jsnum" where
  "divide_jsnum NaN y = NaN"
| "divide_jsnum x NaN = NaN"
| "divide_jsnum (Num a) (Num b) =
     (if b = 0 then (if a = 0 then NaN else if 0 < a then PosInf else NegInf)
      else Num (a / b))"
| "divide_jsnum (Num a) y = Num 0"
| "divide_jsnum PosInf (Num b) = (if 0 \<le> b then PosInf else NegInf)"
| "divide_jsnum NegInf (Num b) = (if 0 \<le> b then NegInf else PosInf)"
| "divide_jsnum x y = NaN"

fun inverse_jsnum :: "jsnum \<Rightarrow> jsnum" where
  "inverse_jsnum (Num a) = (if a = 0 then PosInf else Num (1 / a))"
| "inverse_jsnum PosInf = Num 0"
| "inverse_jsnum NegInf = Num 0"
| "inverse_jsnum NaN = NaN"

fun less_jsnum :: "jsnum \<Rightarrow> jsnum \<Rightarrow> bool" where
  "less_jsnum NaN y = False"
| "less_jsnum x NaN = False"
| "less_jsnum (Num a) (Num b) = (a < b)"
| "less_jsnum x NegInf = False"
| "less_jsnum PosInf y = False"
| "less_jsnum x y = True"

fun less_eq_jsnum :: "jsnum \<Rightarrow> jsnum \<Rightarrow> bool" where
  "less_eq_jsnum NaN y = False"
| "less_eq_jsnum x NaN = False"
| "less_eq_jsnum (Num a) (Num b) = (a \<le> b)"
| "less_eq_jsnum NegInf y = True"
| "less_eq_jsnum x PosInf = True"
| "less_eq_jsnum x y = False"

instance ..

end

text \<open>The functions of \<^verbatim>\<open>Math\<close> the sources call.\<close>

fun Math_abs :: "jsnum \<Rightarrow> jsnum" where
  "Math_abs (Num a) = Num \<bar>a\<bar>"
| "Math_abs PosInf = PosInf"
| "Math_abs NegInf = PosInf"
| "Math_abs NaN = NaN"

fun Math_min :: "jsnum \<Rightarrow> jsnum \<Rightarrow> jsnum" where
  "Math_min NaN y = NaN"
| "Math_min x NaN = NaN"
| "Math_min x y = (if x \<le> y then x else y)"

fun Math_max :: "jsnum \<Rightarrow> jsnum \<Rightarrow> jsnum" where
  "Math_max NaN y = NaN"
| "Math_max x NaN = NaN"
| "Math_max x y = (if x \<le> y then y else x)"

fun Math_exp :: "jsnum \<Rightarrow> jsnum" where
  "Math_exp (Num a) = Num (exp a)"
| "Math_exp PosInf = PosInf"
| "Math_exp NegInf = Num 0"
| "Math_exp NaN = NaN"

fun Math_sin :: "jsnum \<Rightarrow> jsnum" where
  "Math_sin (Num a) = Num (sin a)"
| "Math_sin x = NaN"

definition Math_PI :: jsnum where
  "Math_PI = Num pi"

text \<open>
  A template literal \<^verbatim>\<open>${e}\<close> with a number \<open>e\<close> inserts the language's
  number-to-string conversion of \<open>e\<close>. The conversion is a built-in, not code of the
  repository: every function that formats a number takes it as the parameter
  \<open>toStr\<close>.
\<close>

type_synonym number_to_string = "jsnum \<Rightarrow> string"

section \<open>The wave background (first variant, with the gradient)\<close>

text \<open>
  The component's props after defaulting, its refs (mutable cells that live across
  frames) and the \<open>dimensions\<close> state. \<open>targetMouseXRef\<close> holds
  \<^verbatim>\<open>number | null\<close>.
\<close>

record WaveBackgroundProps =
  className :: string
  maxAmplitude :: jsnum
  baseAmplitude :: jsnum
  waveSpeed :: jsnum
  waveFrequency :: jsnum
  mouseInfluenceRadius :: jsnum
  waveOffset :: jsnum
  mouseLerpSpeed :: jsnum
  gradientLerpSpeed :: jsnum
  gradientRangeStart :: jsnum
  gradientRangeEnd :: jsnum

record WaveRefs =
  targetMouseXRef :: "jsnum option"
  smoothMouseXRef :: jsnum
  smoothGradientXRef :: jsnum
  mouseInfluenceRef :: jsnum

record Dimensions =
  width :: jsnum
  height :: jsnum

text \<open>The defaults of the destructured props.\<close>

definition defaultProps :: WaveBackgroundProps where
  "defaultProps =
     \<lparr>className = [], maxAmplitude = Num 30, baseAmplitude = Num 8, waveSpeed = Num 0.001,
      waveFrequency = Num 2, mouseInfluenceRadius = Num 300, waveOffset = Num 50,
      mouseLerpSpeed = Num 0.02, gradientLerpSpeed = Num 0.002,
      gradientRangeStart = Num 1 / Num 3, gradientRangeEnd = Num 5 / Num 6\<rparr>"

text \<open>\<^verbatim>\<open>getAmplitudeAtX\<close>: the amplitude at \<open>x\<close>, from the smoothed mouse position.\<close>

definition getAmplitudeAtX :: "WaveBackgroundProps \<Rightarrow> WaveRefs \<Rightarrow> jsnum \<Rightarrow> jsnum" where
  "getAmplitudeAtX props refs x =
     (if mouseInfluenceRef refs \<le> Num 0.01 then baseAmplitude props
      else
        let distance = Math_abs (x - smoothMouseXRef refs);
            normalizedDistance = Math_min (distance / mouseInfluenceRadius props) (Num 1);
            influence = Math_exp (- normalizedDistance * normalizedDistance * Num 3);
            targetAmplitude =
              baseAmplitude props + (maxAmplitude props - baseAmplitude props) * influence
        in baseAmplitude props + (targetAmplitude - baseAmplitude props) * mouseInfluenceRef refs)"

text \<open>
  \<^verbatim>\<open>generateWavePath\<close>. The \<^verbatim>\<open>for\<close> loop over \<open>i = 0, ..., segments\<close> is
  \<open>wavePathLoop\<close>: the counter is a natural number (the loop only ever holds the
  integers \<open>0..101\<close>, which doubles represent exactly) and \<open>path\<close> is the string
  built so far.
\<close>

function wavePathLoop ::
  "number_to_string \<Rightarrow> WaveBackgroundProps \<Rightarrow> WaveRefs \<Rightarrow> jsnum \<Rightarrow> jsnum \<Rightarrow> jsnum \<Rightarrow>
   nat \<Rightarrow> jsnum \<Rightarrow> nat \<Rightarrow> string \<Rightarrow> string" where
  "wavePathLoop toStr props refs time w h segments segmentWidth i path =
     (if i \<le> segments then
        let x = Num (real i) * segmentWidth;
            amplitude = getAmplitudeAtX props refs x;
            basePhase = (x / w) * Math_PI * Num 2 * waveFrequency props;
            timeOffset = time * waveSpeed props;
            primaryWave = Math_sin (basePhase + timeOffset);
            secondaryWave = Math_sin (basePhase * Num 1.5 + timeOffset * Num 0.7) * Num 0.3;
            waveY = h - waveOffset props
                    - amplitude * (Num 1 + primaryWave + secondaryWave) * Num 0.5
        in wavePathLoop toStr props refs time w h segments segmentWidth (i + 1)
             (path @ '' L '' @ toStr x @ '' '' @ toStr waveY)
      else path)"
  by pat_completeness auto
termination
  by (relation "measure (\<lambda>(toStr, props, refs, time, w, h, segments, segmentWidth, i, path).
        Suc segments - i)") auto

definition generateWavePath ::
  "number_to_string \<Rightarrow> WaveBackgroundProps \<Rightarrow> WaveRefs \<Rightarrow> jsnum \<Rightarrow> jsnum \<Rightarrow> jsnum \<Rightarrow> string" where
  "generateWavePath toStr props refs time w h =
     (let segments = 100;
          segmentWidth = w / Num (real segments);
          path = ''M 0 '' @ toStr (h + Num 10);
          path = wavePathLoop toStr props refs time w h segments segmentWidth 0 path
      in path @ '' L '' @ toStr w @ '' '' @ toStr (h + Num 10) @ '' Z'')"

text \<open>
  The text one iteration of the loop appends for the counter \<open>i\<close>: the body of the
  loop, on its own.
\<close>

definition waveSegment ::
  "number_to_string \<Rightarrow> WaveBackgroundProps \<Rightarrow> WaveRefs \<Rightarrow> jsnum \<Rightarrow> jsnum \<Rightarrow> jsnum \<Rightarrow>
   jsnum \<Rightarrow> nat \<Rightarrow> string" where
  "waveSegment toStr props refs time w h segmentWidth i =
     (let x = Num (real i) * segmentWidth;
          amplitude = getAmplitudeAtX props refs x;
          basePhase = (x / w) * Math_PI * Num 2 * waveFrequency props;
          timeOffset = time * waveSpeed props;
          primaryWave = Math_sin (basePhase + timeOffset);
          secondaryWave = Math_sin (basePhase * Num 1.5 + timeOffset * Num 0.7) * Num 0.3;
          waveY = h - waveOffset props
                  - amplitude * (Num 1 + primaryWave + secondaryWave) * Num 0.5
      in '' L '' @ toStr x @ '' '' @ toStr waveY)"

text \<open>
  The two DOM nodes a frame writes to: the \<^verbatim>\<open>d\<close> attribute of the path element
  and the \<^verbatim>\<open>background\<close> of the gradient layer. \<open>None\<close> is a ref whose
  \<^verbatim>\<open>current\<close> is \<^verbatim>\<open>null\<close>.
\<close>

record WaveDom =
  pathRef_d :: "string option"
  gradientRef_background :: "string option"

text \<open>
  One call of \<^verbatim>\<open>animate\<close>: the refs are updated first, then the path is redrawn
  from the updated refs (only when the path element exists and the width is positive) and
  the gradient is repainted. Scheduling the next frame
  (\<^verbatim>\<open>requestAnimationFrame\<close>) belongs to the browser and is not part of the step.
\<close>

definition animate ::
  "number_to_string \<Rightarrow> WaveBackgroundProps \<Rightarrow> Dimensions \<Rightarrow> jsnum \<Rightarrow> WaveRefs \<times> WaveDom \<Rightarrow>
   WaveRefs \<times> WaveDom" where
  "animate toStr props dimensions time state =
     (let refs = fst state; nodes = snd state;
          lerpSpeed = mouseLerpSpeed props;
          influenceFadeSpeed = Num 0.05;
          refs' =
            (case targetMouseXRef refs of
               Some targetMouseX \<Rightarrow>
                 let rangeWidth =
                       width dimensions * (gradientRangeEnd props - gradientRangeStart props);
                     startOffset = width dimensions * gradientRangeStart props;
                     gradientTargetX =
                       (targetMouseX / width dimensions) * rangeWidth + startOffset
                 in refs\<lparr>mouseInfluenceRef :=
                           mouseInfluenceRef refs
                           + (Num 1 - mouseInfluenceRef refs) * influenceFadeSpeed,
                         smoothMouseXRef :=
                           smoothMouseXRef refs
                           + (targetMouseX - smoothMouseXRef refs) * lerpSpeed,
                         smoothGradientXRef :=
                           smoothGradientXRef refs
                           + (gradientTargetX - smoothGradientXRef refs)
                             * gradientLerpSpeed props\<rparr>
             | None \<Rightarrow>
                 let rangeCenter =
                       width dimensions
                       * (gradientRangeStart props
                          + (gradientRangeEnd props - gradientRangeStart props) / Num 2);
                     centerTarget = rangeCenter
                 in refs\<lparr>mouseInfluenceRef :=
                           mouseInfluenceRef refs
                           + (Num 0 - mouseInfluenceRef refs) * influenceFadeSpeed,
                         smoothGradientXRef :=
                           smoothGradientXRef refs
                           + (centerTarget - smoothGradientXRef refs)
                             * gradientLerpSpeed props\<rparr>);
          nodes' =
            (if pathRef_d nodes \<noteq> None \<and> Num 0 < width dimensions
             then nodes\<lparr>pathRef_d :=
                    Some (generateWavePath toStr props refs' time
                            (width dimensions) (height dimensions))\<rparr>
             else nodes);
          nodes'' =
            (if gradientRef_background nodes' \<noteq> None
             then nodes'\<lparr>gradientRef_background :=
                    Some (''radial-gradient(circle at '' @ toStr (smoothGradientXRef refs')
                          @ ''px 100%, rgb(var(--bg-vfx1)), rgb(var(--bg-vfx2)))'')\<rparr>
             else nodes')
      in (refs', nodes''))"

text \<open>
  The mount effect initialises the smoothed positions from the container's
  \<^verbatim>\<open>offsetWidth\<close>, when the container exists.
\<close>

definition initSmoothedPositions ::
  "WaveBackgroundProps \<Rightarrow> jsnum option \<Rightarrow> WaveRefs \<Rightarrow> WaveRefs" where
  "initSmoothedPositions props containerOffsetWidth refs =
     (case containerOffsetWidth of
        None \<Rightarrow> refs
      | Some offsetWidth \<Rightarrow>
          let center = offsetWidth / Num 2;
              rangeCenter =
                offsetWidth
                * (gradientRangeStart props
                   + (gradientRangeEnd props - gradientRangeStart props) / Num 2)
          in refs\<lparr>smoothMouseXRef := center, smoothGradientXRef := rangeCenter\<rparr>)"

section \<open>The wave background (second variant, without the gradient)\<close>

text \<open>
  The source file holds a second \<^verbatim>\<open>WaveBackground\<close> with six props and three
  refs. Its two path functions are embedded from its own text; the names carry the suffix
  \<open>_v2\<close>.
\<close>

record WaveBackgroundProps_v2 =
  className_v2 :: string
  maxAmplitude_v2 :: jsnum
  baseAmplitude_v2 :: jsnum
  waveSpeed_v2 :: jsnum
  waveFrequency_v2 :: jsnum
  mouseInfluenceRadius_v2 :: jsnum
  waveOffset_v2 :: jsnum

record WaveRefs_v2 =
  targetMouseXRef_v2 :: "jsnum option"
  smoothMouseXRef_v2 :: jsnum
  mouseInfluenceRef_v2 :: jsnum

definition getAmplitudeAtX_v2 :: "WaveBackgroundProps_v2 \<Rightarrow> WaveRefs_v2 \<Rightarrow> jsnum \<Rightarrow> jsnum" where
  "getAmplitudeAtX_v2 props refs x =
     (if mouseInfluenceRef_v2 refs \<le> Num 0.01 then baseAmplitude_v2 props
      else
        let distance = Math_abs (x - smoothMouseXRef_v2 refs);
            normalizedDistance = Math_min (distance / mouseInfluenceRadius_v2 props) (Num 1);
            influence = Math_exp (- normalizedDistance * normalizedDistance * Num 3);
            targetAmplitude =
              baseAmplitude_v2 props
              + (maxAmplitude_v2 props - baseAmplitude_v2 props) * influence
        in baseAmplitude_v2 props
           + (targetAmplitude - baseAmplitude_v2 props) * mouseInfluenceRef_v2 refs)"

function wavePathLoop_v2 ::
  "number_to_string \<Rightarrow> WaveBackgroundProps_v2 \<Rightarrow> WaveRefs_v2 \<Rightarrow> jsnum \<Rightarrow> jsnum \<Rightarrow> jsnum \<Rightarrow>
   nat \<Rightarrow> jsnum \<Rightarrow> nat \<Rightarrow> string \<Rightarrow> string" where
  "wavePathLoop_v2 toStr props refs time w h segments segmentWidth i path =
     (if i \<le> segments then
        let x = Num (real i) * segmentWidth;
            amplitude = getAmplitudeAtX_v2 props refs x;
            basePhase = (x / w) * Math_PI * Num 2 * waveFrequency_v2 props;
            timeOffset = time * waveSpeed_v2 props;
            primaryWave = Math_sin (basePhase + timeOffset);
            secondaryWave = Math_sin (basePhase * Num 1.5 + timeOffset * Num 0.7) * Num 0.3;
            waveY = h - waveOffset_v2 props
                    - amplitude * (Num 1 + primaryWave + secondaryWave) * Num 0.5
        in wavePathLoop_v2 toStr props refs time w h segments segmentWidth (i + 1)
             (path @ '' L '' @ toStr x @ '' '' @ toStr waveY)
      else path)"
  by pat_completeness auto
termination
  by (relation "measure (\<lambda>(toStr, props, refs, time, w, h, segments, segmentWidth, i, path).
        Suc segments - i)") auto

definition generateWavePath_v2 ::
  "number_to_string \<Rightarrow> WaveBackgroundProps_v2 \<Rightarrow> WaveRefs_v2 \<Rightarrow> jsnum \<Rightarrow> jsnum \<Rightarrow> jsnum \<Rightarrow>
   string" where
  "generateWavePath_v2 toStr props refs time w h =
     (let segments = 100;
          segmentWidth = w / Num (real segments);
          path = ''M 0 '' @ toStr (h + Num 10);
          path = wavePathLoop_v2 toStr props refs time w h segments segmentWidth 0 path
      in path @ '' L '' @ toStr w @ '' '' @ toStr (h + Num 10) @ '' Z'')"

section \<open>The scroll blur hook\<close>

text \<open>
  The callback \<^verbatim>\<open>useScrollBlur\<close> registers reads the element behind the ref and
  writes two properties of its style. The document is a store of elements by address; the
  ref holds an address or \<^verbatim>\<open>null\<close>. Reading a member of \<^verbatim>\<open>ref.current\<close>
  throws a \<^verbatim>\<open>TypeError\<close> when it is \<^verbatim>\<open>null\<close>, so the callback returns an
  error or the store after it.
\<close>

datatype js_error = TypeError

record CSSStyle =
  filter_css :: string
  textShadow :: string

record HTMLElement =
  boundingClientRect_top :: jsnum
  style :: CSSStyle

type_synonym document = "nat \<Rightarrow> HTMLElement"

definition member_of :: "nat option \<Rightarrow> js_error + nat" where
  "member_of ref_current = (case ref_current of None \<Rightarrow> Inl TypeError | Some a \<Rightarrow> Inr a)"

definition useScrollBlur_callback ::
  "number_to_string \<Rightarrow> jsnum \<Rightarrow> nat option \<Rightarrow> document \<Rightarrow> js_error + document" where
  "useScrollBlur_callback toStr innerHeight ref_current elements =
     (if ref_current = None then Inr elements
      else
        case member_of ref_current of
          Inl e \<Rightarrow> Inl e
        | Inr a \<Rightarrow>
            let rect_top = boundingClientRect_top (elements a);
                viewportHeight = innerHeight;
                startFade = viewportHeight;
                endFade = viewportHeight * Num 0.8;
                rawProgress = (rect_top - endFade) / (startFade - endFade);
                progress = Math_max (Num 0) (Math_min (Num 1) rawProgress);
                maxBlur = Num 6;
                blurAmount = maxBlur * progress
            in if Num 0 < progress then
                 let shadowBlur = blurAmount * Num 3
                 in Inr (elements(a := (elements a)\<lparr>style := (style (elements a))
                      \<lparr>filter_css := ''blur('' @ toStr blurAmount @ ''px)'',
                       textShadow := ''0 0 '' @ toStr shadowBlur @ ''px rgb(var(--primary) / ''
                                     @ toStr (Num 0.5 * progress) @ '')''\<rparr>\<rparr>))
               else
                 Inr (elements(a := (elements a)\<lparr>style := (style (elements a))
                      \<lparr>filter_css := ''none'', textShadow := ''none''\<rparr>\<rparr>)))"

section \<open>The navigation menu and the project list\<close>

text \<open>
  Modelled from the spec: the preferences context (\<^verbatim>\<open>../context/useUserPreferences\<close>)
  is not among the sources. The spec calls \<open>lang\<close> the language flag that the
  navigation bar toggles: \<open>setLang\<close> stores its argument as the flag of the next
  render and touches nothing else.
\<close>

record UserPreferences =
  lang :: string
  prefersReducedMotion :: bool

definition setLang :: "string \<Rightarrow> UserPreferences \<Rightarrow> UserPreferences" where
  "setLang l prefs = prefs\<lparr>lang := l\<rparr>"

text \<open>\<^verbatim>\<open>toggleLang\<close> of the navigation menu, on the preferences it closes over.\<close>

definition toggleLang :: "UserPreferences \<Rightarrow> UserPreferences" where
  "toggleLang prefs = setLang (if lang prefs = ''br'' then ''en'' else ''br'') prefs"

text \<open>
  \<^verbatim>\<open>ProjectProps\<close>, the props of the \<^verbatim>\<open>Projects\<close> component: an optional class
  name (its field is named \<open>projectClassName\<close>, the wave's props having a
  \<open>className\<close> already).
\<close>

record ProjectProps =
  projectClassName :: "string option"

text \<open>
  The \<^verbatim>\<open>Project\<close> type; \<^verbatim>\<open>Record<string, string>\<close> is a map from strings to
  strings.
\<close>

record Project =
  title :: string
  description :: string
  techs :: "string list"
  links :: "string \<rightharpoonup> string"

text \<open>
  The two JSON modules are imported once and shared by every render; the files themselves
  are not among the sources, so their contents are the two fields of the store below.
  \<^verbatim>\<open>Projects\<close> returns what it renders (the heading and the props of one card per
  project, in order) and the store as the render leaves it.
\<close>

record ContentModules =
  projectsEn :: "Project list"
  projectsBr :: "Project list"

record ProjectCardProps =
  p_prop :: Project
  lang_prop :: string
  key_prop :: string
  index_prop :: nat

record ProjectsSection =
  heading :: string
  cards :: "ProjectCardProps list"

definition Projects ::
  "UserPreferences \<Rightarrow> ContentModules \<Rightarrow> ProjectsSection \<times> ContentModules" where
  "Projects prefs content =
     (let projects = (if lang prefs = ''en'' then projectsEn content else projectsBr content)
      in (\<lparr>heading = (if lang prefs = ''en'' then ''Projects'' else ''Projetos''),
           cards = map (\<lambda>(p, index).
                      \<lparr>p_prop = p, lang_prop = lang prefs,
                       key_prop = ''project-card-'' @ title p, index_prop = index\<rparr>)
                     (zip projects [0..<length projects])\<rparr>,
          content))"

section \<open>The statements of the specification\<close>

text \<open>
  The closed form the specification gives for the amplitude: with
  \<open>d = min(|x - smoothedMouseX| / mouseInfluenceRadius, 1)\<close> and the blend factor
  \<open>influence\<close>, the value
  \<open>base + ((base + (max - base) * exp(-3 * d^2)) - base) * influence\<close>.
\<close>

definition spec_amplitude :: "WaveBackgroundProps \<Rightarrow> WaveRefs \<Rightarrow> jsnum \<Rightarrow> jsnum" where
  "spec_amplitude props refs x =
     (let d = Math_min (Math_abs (x - smoothMouseXRef refs) / mouseInfluenceRadius props) (Num 1);
          influence = mouseInfluenceRef refs
      in baseAmplitude props
         + ((baseAmplitude props
             + (maxAmplitude props - baseAmplitude props) * Math_exp (Num (- 3) * (d * d)))
            - baseAmplitude props) * influence)"

text \<open>\<^verbatim>\<open>Number.isFinite\<close>: neither an infinity nor \<open>NaN\<close>.\<close>

fun isFinite :: "jsnum \<Rightarrow> bool" where
  "isFinite (Num a) = True"
| "isFinite x = False"

text \<open>
  The layout of the path, with every product and quotient grouped as the code evaluates
  it: \<open>M 0 (h+10)\<close>, then the 101 points \<open>(x\<^sub>i, y\<^sub>i)\<close> for \<open>i = 0..100\<close> with
  \<open>x\<^sub>i = i * (w / 100)\<close>, \<open>phase\<^sub>i = (x\<^sub>i / w) * pi * 2 * waveFrequency\<close> and
  \<open>y\<^sub>i = h - waveOffset - amplitude(x\<^sub>i) * (1 + sin(phase\<^sub>i + t * waveSpeed)
  + 0.3 * sin(1.5 * phase\<^sub>i + 0.7 * (t * waveSpeed))) * 0.5\<close>, then \<open>L w (h+10) Z\<close>.
\<close>

definition layout_x :: "jsnum \<Rightarrow> nat \<Rightarrow> jsnum" where
  "layout_x w i = Num (real i) * (w / Num 100)"

definition layout_phase :: "WaveBackgroundProps \<Rightarrow> jsnum \<Rightarrow> nat \<Rightarrow> jsnum" where
  "layout_phase props w i = (layout_x w i / w) * Math_PI * Num 2 * waveFrequency props"

definition layout_y ::
  "WaveBackgroundProps \<Rightarrow> WaveRefs \<Rightarrow> jsnum \<Rightarrow> jsnum \<Rightarrow> jsnum \<Rightarrow> nat \<Rightarrow> jsnum" where
  "layout_y props refs t w h i =
     h - waveOffset props
     - getAmplitudeAtX props refs (layout_x w i)
       * (Num 1 + Math_sin (layout_phase props w i + t * waveSpeed props)
          + Num 0.3
            * Math_sin (Num 1.5 * layout_phase props w i + Num 0.7 * (t * waveSpeed props)))
       * Num 0.5"

definition layout_points ::
  "WaveBackgroundProps \<Rightarrow> WaveRefs \<Rightarrow> jsnum \<Rightarrow> jsnum \<Rightarrow> jsnum \<Rightarrow> (jsnum \<times> jsnum) list" where
  "layout_points props refs t w h =
     map (\<lambda>i. (layout_x w i, layout_y props refs t w h i)) [0..<101]"

definition layout_path ::
  "number_to_string \<Rightarrow> WaveBackgroundProps \<Rightarrow> WaveRefs \<Rightarrow> jsnum \<Rightarrow> jsnum \<Rightarrow> jsnum \<Rightarrow> string" where
  "layout_path toStr props refs t w h =
     ''M 0 '' @ toStr (h + Num 10)
     @ concat (map (\<lambda>point. '' L '' @ toStr (fst point) @ '' '' @ toStr (snd point))
                (layout_points props refs t w h))
     @ '' L '' @ toStr w @ '' '' @ toStr (h + Num 10) @ '' Z''"

text \<open>
  The two variants get the same inputs: the six configuration parameters, the smoothed
  mouse position and the influence factor agree.
\<close>

definition spec_sameWaveInputs ::
  "WaveBackgroundProps \<Rightarrow> WaveRefs \<Rightarrow> WaveBackgroundProps_v2 \<Rightarrow> WaveRefs_v2 \<Rightarrow> bool" where
  "spec_sameWaveInputs props refs props2 refs2 =
     (maxAmplitude_v2 props2 = maxAmplitude props
      \<and> baseAmplitude_v2 props2 = baseAmplitude props
      \<and> waveSpeed_v2 props2 = waveSpeed props
      \<and> waveFrequency_v2 props2 = waveFrequency props
      \<and> mouseInfluenceRadius_v2 props2 = mouseInfluenceRadius props
      \<and> waveOffset_v2 props2 = waveOffset props
      \<and> smoothMouseXRef_v2 refs2 = smoothMouseXRef refs
      \<and> mouseInfluenceRef_v2 refs2 = mouseInfluenceRef refs)"

text \<open>
  The range of the gradient, \<open>[gradientRangeStart * width, gradientRangeEnd * width]\<close>,
  and the conditions under which the specification expects a frame to keep the smoothed
  gradient position inside it. The raw mouse position is constrained only when there is
  one.
\<close>

definition spec_gradientInRange :: "WaveBackgroundProps \<Rightarrow> Dimensions \<Rightarrow> jsnum \<Rightarrow> bool" where
  "spec_gradientInRange props dimensions g =
     (gradientRangeStart props * width dimensions \<le> g
      \<and> g \<le> gradientRangeEnd props * width dimensions)"

definition spec_gradientConditions :: "WaveBackgroundProps \<Rightarrow> Dimensions \<Rightarrow> WaveRefs \<Rightarrow> bool" where
  "spec_gradientConditions props dimensions refs =
     (gradientRangeStart props \<le> gradientRangeEnd props
      \<and> Num 0 \<le> gradientLerpSpeed props \<and> gradientLerpSpeed props \<le> Num 1
      \<and> (case targetMouseXRef refs of
            None \<Rightarrow> True
          | Some targetMouseX \<Rightarrow> Num 0 \<le> targetMouseX \<and> targetMouseX \<le> width dimensions)
      \<and> spec_gradientInRange props dimensions (smoothGradientXRef refs))"

section \<open>Double precision\<close>

text \<open>
  The rounding of the format: a real number goes to the nearest double, a tie to the one
  with the even significand. A double is an integer of at most 53 bits times a power of
  two; the exponent of the last bit is 52 below that of the leading bit and never below
  \<open>-1074\<close> (the subnormal range). A rounded value of magnitude \<open>2^1024\<close> or more is an
  infinity.
\<close>

definition round_half_even :: "real \<Rightarrow> int" where
  "round_half_even r =
     (let f = \<lfloor>r\<rfloor>
      in if r - of_int f < 1 / 2 then f
         else if 1 / 2 < r - of_int f then f + 1
         else if even f then f else f + 1)"

definition fl64 :: "real \<Rightarrow> real" where
  "fl64 x =
     (if x = 0 then 0
      else
        let e = max (\<lfloor>log 2 \<bar>x\<bar>\<rfloor> - 52) (- 1074)
        in of_int (round_half_even (x / 2 powr of_int e)) * 2 powr of_int e)"

definition double_of_real :: "real \<Rightarrow> jsnum" where
  "double_of_real x =
     (let y = fl64 x
      in if 2 ^ 1024 \<le> y then PosInf else if y \<le> - (2 ^ 1024) then NegInf else Num y)"

text \<open>
  The product and the quotient of two doubles, as the language computes them: the exact
  result, rounded. On the special values and on a zero divisor they are the operations
  of the number model.
\<close>

fun times_double :: "jsnum \<Rightarrow> jsnum \<Rightarrow> jsnum" where
  "times_double (Num a) (Num b) = double_of_real (a * b)"
| "times_double x y = x * y"

fun divide_double :: "jsnum \<Rightarrow> jsnum \<Rightarrow> jsnum" where
  "divide_double (Num a) (Num b) = (if b = 0 then Num a / Num b else double_of_real (a / b))"
| "divide_double x y = x / y"

text \<open>
  The two lines of \<^verbatim>\<open>generateWavePath\<close> that give a point its x coordinate,
  \<^verbatim>\<open>segmentWidth = width / segments\<close> and \<^verbatim>\<open>x = i * segmentWidth\<close>, on doubles;
  and the coordinate the specification names, \<open>x\<^sub>i = i * w / 100\<close>, on doubles.
\<close>

definition segmentWidth_double :: "jsnum \<Rightarrow> jsnum" where
  "segmentWidth_double w = divide_double w (Num 100)"

definition pointX_double :: "jsnum \<Rightarrow> nat \<Rightarrow> jsnum" where
  "pointX_double w i = times_double (Num (real i)) (segmentWidth_double w)"

definition spec_x_double :: "jsnum \<Rightarrow> nat \<Rightarrow> jsnum" where
  "spec_x_double w i = divide_double (times_double (Num (real i)) w) (Num 100)"

section \<open>Example states\<close>

text \<open>
  Refs of a container 800 pixels wide: with the mouse resting at the centre and the
  influence fully faded in, and with the mouse away and the influence faded out.
\<close>

definition refsMouseInside :: WaveRefs where
  "refsMouseInside =
     \<lparr>targetMouseXRef = Some (Num 400), smoothMouseXRef = Num 400,
      smoothGradientXRef = Num 400, mouseInfluenceRef = Num 1\<rparr>"

definition refsMouseAway :: WaveRefs where
  "refsMouseAway =
     \<lparr>targetMouseXRef = None, smoothMouseXRef = Num 400,
      smoothGradientXRef = Num 400, mouseInfluenceRef = Num 0\<rparr>"

definition wideDimensions :: Dimensions where
  "wideDimensions = \<lparr>width = Num 800, height = Num 600\<rparr>"

text \<open>The default props with the radius of the mouse influence set to zero.\<close>

definition zeroRadiusProps :: WaveBackgroundProps where
  "zeroRadiusProps = defaultProps\<lparr>mouseInfluenceRadius := Num 0\<rparr>"

text \<open>
  The state \<^verbatim>\<open>useState({ width: 0, height: 0 })\<close> starts from, with the mouse on the
  left edge of the container and every smoothed position still at zero, and a document in
  which neither ref is attached.
\<close>

definition initialDimensions :: Dimensions where
  "initialDimensions = \<lparr>width = Num 0, height = Num 0\<rparr>"

definition refsMouseAtLeftEdge :: WaveRefs where
  "refsMouseAtLeftEdge =
     \<lparr>targetMouseXRef = Some (Num 0), smoothMouseXRef = Num 0,
      smoothGradientXRef = Num 0, mouseInfluenceRef = Num 0\<rparr>"

definition detachedNodes :: WaveDom where
  "detachedNodes = \<lparr>pathRef_d = None, gradientRef_background = None\<rparr>"

text \<open>The defaults of the second variant, and its refs with the mouse at the centre.\<close>

definition defaultProps_v2 :: WaveBackgroundProps_v2 where
  "defaultProps_v2 =
     \<lparr>className_v2 = [], maxAmplitude_v2 = Num 30, baseAmplitude_v2 = Num 8,
      waveSpeed_v2 = Num 0.001, waveFrequency_v2 = Num 2, mouseInfluenceRadius_v2 = Num 300,
      waveOffset_v2 = Num 50\<rparr>"

definition refsMouseInside_v2 :: WaveRefs_v2 where
  "refsMouseInside_v2 =
     \<lparr>targetMouseXRef_v2 = Some (Num 400), smoothMouseXRef_v2 = Num 400,
      mouseInfluenceRef_v2 = Num 1\<rparr>"

text \<open>
  A stand-in for the number formatter, for closed examples: the special values print as
  the language prints them, a finite value as a placeholder.
\<close>

fun exampleToStr :: number_to_string where
  "exampleToStr (Num a) = ''#''"
| "exampleToStr PosInf = ''Infinity''"
| "exampleToStr NegInf = ''-Infinity''"
| "exampleToStr NaN = ''NaN''"

text \<open>
  Two documents that agree on the geometry of the title (700 pixels from the top of an
  800 pixel viewport) and differ in the style a previous callback left on it.
\<close>

definition freshDocument :: document where
  "freshDocument =
     (\<lambda>a. \<lparr>boundingClientRect_top = Num 700,
            style = \<lparr>filter_css = [], textShadow = []\<rparr>\<rparr>)"

definition blurredDocument :: document where
  "blurredDocument =
     (\<lambda>a. \<lparr>boundingClientRect_top = Num 700,
            style = \<lparr>filter_css = ''blur(6px)'',
                     textShadow = ''0 0 18px rgb(var(--primary) / 0.5)''\<rparr>\<rparr>)"

text \<open>Preferences with each of the two languages, and with a flag that is neither.\<close>

definition prefsBr :: UserPreferences where
  "prefsBr = \<lparr>lang = ''br'', prefersReducedMotion = False\<rparr>"

definition prefsEn :: UserPreferences where
  "prefsEn = \<lparr>lang = ''en'', prefersReducedMotion = False\<rparr>"

definition prefsOther :: UserPreferences where
  "prefsOther = \<lparr>lang = ''fr'', prefersReducedMotion = False\<rparr>"

text \<open>A content store with one project per locale.\<close>

definition exampleContent :: ContentModules where
  "exampleContent =
     \<lparr>projectsEn =
        [\<lparr>title = ''Portfolio'', description = ''This site'', techs = [''React''],
          links = [''repo'' \<mapsto> ''https://example.org/portfolio'']\<rparr>],
      projectsBr =
        [\<lparr>title = ''Portfolio'', description = ''Este site'', techs = [''React''],
          links = [''repo'' \<mapsto> ''https://example.org/portfolio'']\<rparr>]\<rparr>"

declare wavePathLoop.simps [simp del] wavePathLoop_v2.simps [simp del]

section \<open>Laws of the number model\<close>

lemma jsnum_mult_commute: "a * b = b * a" for a b :: jsnum
  by (cases a; cases b) (simp_all add: mult.commute)

lemma jsnum_neg_square: "- d * d * Num 3 = Num (- 3) * (d * d)" for d :: jsnum
  by (cases d) simp_all

lemma jsnum_less_not_le: "a < b \<Longrightarrow> \<not> b \<le> a" for a b :: jsnum
  by (cases a; cases b) simp_all

section \<open>The amplitude\<close>

text \<open>
  Claim C1. Whenever the blend factor is greater than 0.01, \<open>getAmplitudeAtX\<close> returns
  the closed form of the specification (a Gaussian falloff around the smoothed mouse
  position, blended with the base amplitude by the blend factor); whenever the blend factor
  is at most 0.01 it returns the base amplitude itself. This holds for every number,
  the infinities and \<open>NaN\<close> included.
\<close>

theorem getAmplitudeAtX_closed_form:
  "(Num 0.01 < mouseInfluenceRef refs \<longrightarrow>
      getAmplitudeAtX props refs x = spec_amplitude props refs x)
   \<and> (mouseInfluenceRef refs \<le> Num 0.01 \<longrightarrow>
      getAmplitudeAtX props refs x = baseAmplitude props)"
  by (simp add: getAmplitudeAtX_def spec_amplitude_def Let_def jsnum_neg_square
      jsnum_less_not_le)

text \<open>
  Both cases occur: with the influence faded in the closed form applies (and gives the
  maximal amplitude at the mouse), with the influence faded out the base amplitude.
\<close>

theorem getAmplitudeAtX_closed_form_witness:
  "Num 0.01 < mouseInfluenceRef refsMouseInside
   \<and> getAmplitudeAtX defaultProps refsMouseInside (Num 400)
       = spec_amplitude defaultProps refsMouseInside (Num 400)
   \<and> spec_amplitude defaultProps refsMouseInside (Num 400) = Num 30
   \<and> mouseInfluenceRef refsMouseAway \<le> Num 0.01
   \<and> getAmplitudeAtX defaultProps refsMouseAway (Num 400) = baseAmplitude defaultProps"
  using getAmplitudeAtX_closed_form [of refsMouseInside defaultProps "Num 400"]
    getAmplitudeAtX_closed_form [of refsMouseAway defaultProps "Num 400"]
  by (simp add: refsMouseInside_def refsMouseAway_def spec_amplitude_def defaultProps_def
      minus_jsnum_def)

text \<open>
  The normalised distance is a quotient by the radius. With a radius of zero the sample at
  the smoothed mouse position divides zero by zero: the amplitude there is \<open>NaN\<close>, which
  lies in no interval.
\<close>

lemma getAmplitudeAtX_zero_radius_NaN:
  "baseAmplitude zeroRadiusProps \<le> maxAmplitude zeroRadiusProps
   \<and> Num 0 \<le> mouseInfluenceRef refsMouseInside \<and> mouseInfluenceRef refsMouseInside \<le> Num 1
   \<and> getAmplitudeAtX zeroRadiusProps refsMouseInside (Num 400) = NaN
   \<and> \<not> (baseAmplitude zeroRadiusProps \<le> getAmplitudeAtX zeroRadiusProps refsMouseInside (Num 400)
         \<and> getAmplitudeAtX zeroRadiusProps refsMouseInside (Num 400)
            \<le> maxAmplitude zeroRadiusProps)"
  by (simp add: zeroRadiusProps_def defaultProps_def refsMouseInside_def getAmplitudeAtX_def
      minus_jsnum_def)

section \<open>The wave path\<close>

lemma wavePathLoop_step:
  "i \<le> n \<Longrightarrow>
   wavePathLoop toStr props refs t w h n sw i path
   = wavePathLoop toStr props refs t w h n sw (Suc i)
       (path @ waveSegment toStr props refs t w h sw i)"
  by (subst wavePathLoop.simps) (simp add: waveSegment_def Let_def)

lemma wavePathLoop_exit:
  "\<not> i \<le> n \<Longrightarrow> wavePathLoop toStr props refs t w h n sw i path = path"
  by (subst wavePathLoop.simps) simp

text \<open>The loop appends the segments of the counters \<open>i, ..., n\<close>, in order.\<close>

lemma wavePathLoop_concat:
  "wavePathLoop toStr props refs t w h n sw i path
   = path @ concat (map (waveSegment toStr props refs t w h sw) [i..<Suc n])"
proof (induction "Suc n - i" arbitrary: i path)
  case 0
  then have "\<not> i \<le> n"
    by simp
  then show ?case
    by (simp add: wavePathLoop_exit)
next
  case (Suc k)
  then have le: "i \<le> n" and k: "k = Suc n - Suc i"
    by simp_all
  have upt: "[i..<Suc n] = i # [Suc i..<Suc n]"
    using le by (simp add: upt_conv_Cons del: upt_Suc)
  show ?case
    unfolding wavePathLoop_step [OF le] Suc.hyps(1) [OF k] upt
    by simp
qed

text \<open>
  With the segment width of \<open>generateWavePath\<close>, a segment is the point of the layout.
  Only the commutativity of the product is used, which the products of doubles have too.
\<close>

lemma waveSegment_layout:
  "waveSegment toStr props refs t w h (w / Num (real 100)) i
   = '' L '' @ toStr (layout_x w i) @ '' '' @ toStr (layout_y props refs t w h i)"
proof -
  have x: "Num (real i) * (w / Num (real 100)) = layout_x w i"
    by (simp add: layout_x_def)
  have phase: "layout_x w i / w * Math_PI * Num 2 * waveFrequency props = layout_phase props w i"
    by (simp add: layout_phase_def)
  have off: "t * waveSpeed props * Num 0.7 = Num 0.7 * (t * waveSpeed props)"
    by (rule jsnum_mult_commute)
  have c1: "layout_phase props w i * Num 1.5 = Num 1.5 * layout_phase props w i"
    by (rule jsnum_mult_commute)
  have c2: "Math_sin X * Num 0.3 = Num 0.3 * Math_sin X" for X
    by (rule jsnum_mult_commute)
  show ?thesis
    unfolding waveSegment_def Let_def x phase off c1 c2 layout_y_def ..
qed

text \<open>
  Claim C3, as amended. For every time, width and height, \<open>generateWavePath\<close> returns
  the path of the layout: it starts at \<open>M 0 (h+10)\<close>, draws a line to each of exactly
  101 points \<open>(x\<^sub>i, y\<^sub>i)\<close>, \<open>i = 0..100\<close>, with \<open>x\<^sub>i = i * (w / 100)\<close>,
  \<open>phase\<^sub>i = (x\<^sub>i / w) * pi * 2 * waveFrequency\<close> and
  \<open>y\<^sub>i = h - waveOffset - amplitude(x\<^sub>i) * (1 + sin(phase\<^sub>i + t * waveSpeed)
  + 0.3 * sin(1.5 * phase\<^sub>i + 0.7 * (t * waveSpeed))) * 0.5\<close>, and ends with
  \<open>L w (h+10) Z\<close>.
\<close>

theorem generateWavePath_layout:
  "generateWavePath toStr props refs t w h = layout_path toStr props refs t w h
   \<and> length (layout_points props refs t w h) = 101"
proof -
  have seg: "waveSegment toStr props refs t w h (w / Num (real 100))
      = (\<lambda>i. '' L '' @ toStr (layout_x w i) @ '' '' @ toStr (layout_y props refs t w h i))"
    by (rule ext) (rule waveSegment_layout)
  have n: "Suc 100 = 101"
    by simp
  have "generateWavePath toStr props refs t w h = layout_path toStr props refs t w h"
    unfolding generateWavePath_def layout_path_def layout_points_def Let_def
      wavePathLoop_concat seg n
    by (simp add: o_def)
  then show ?thesis
    by (simp add: layout_points_def)
qed

text \<open>Rounding to a double, for a number whose leading bit has the exponent \<open>k\<close>.\<close>

lemma fl64_normal:
  fixes k :: nat
  assumes lo: "2 ^ k \<le> \<bar>x\<bar>" and hi: "\<bar>x\<bar> < 2 ^ Suc k" and k: "k \<le> 52"
  shows "fl64 x = of_int (round_half_even (x * 2 ^ (52 - k))) / 2 ^ (52 - k)"
proof -
  have "0 < (2::real) ^ k"
    by simp
  with lo have x0: "0 < \<bar>x\<bar>"
    by linarith
  then have x1: "x \<noteq> 0"
    by auto
  have "\<lfloor>log 2 \<bar>x\<bar>\<rfloor> = int k"
    using lo hi x0 by (simp add: floor_log_eq_powr_iff powr_realpow powr_add)
  then have e: "max (\<lfloor>log 2 \<bar>x\<bar>\<rfloor> - 52) (- 1074) = - int (52 - k)"
    using k by simp
  have p: "2 powr of_int (- int (52 - k)) = 1 / (2::real) ^ (52 - k)"
    by (simp add: powr_minus powr_realpow divide_simps)
  show ?thesis
    using x1 by (simp add: fl64_def e p Let_def del: of_int_minus of_int_of_nat_eq)
qed

text \<open>
  The four roundings of the fourth point at a width of 1920: \<open>1920 / 100\<close> and three
  times its double (a tie, which goes to the even significand), and \<open>3 * 1920\<close> (exact)
  and its hundredth.
\<close>

lemma fl64_segmentWidth_1920: "fl64 (96 / 5) = 5404319552844595 / 2 ^ 48"
  by (subst fl64_normal [where k = 4]) (simp_all add: round_half_even_def Let_def)

lemma fl64_pointX_1920_3:
  "fl64 (16212958658533785 / 281474976710656) = 8106479329266892 / 2 ^ 47"
  by (subst fl64_normal [where k = 5]) (simp_all add: round_half_even_def Let_def)

lemma fl64_5760: "fl64 5760 = 5760"
  by (subst fl64_normal [where k = 12]) (simp_all add: round_half_even_def Let_def)

lemma fl64_spec_x_1920_3: "fl64 (288 / 5) = 8106479329266893 / 2 ^ 47"
  by (subst fl64_normal [where k = 5]) (simp_all add: round_half_even_def Let_def)

text \<open>
  The claim as first stated puts the points at \<open>x\<^sub>i = i * w / 100\<close>. On doubles that is
  another number than the code's \<open>i * (w / 100)\<close>: at a width of 1920 the code's fourth
  point is at \<open>8106479329266892 / 2^47\<close>, which prints as \<open>57.599999999999994\<close>, and
  the specification's at \<open>8106479329266893 / 2^47\<close>, which prints as \<open>57.6\<close>.
\<close>

theorem generateWavePath_point_rounding_counterexample:
  "pointX_double (Num 1920) 3 = Num (8106479329266892 / 2 ^ 47)
   \<and> spec_x_double (Num 1920) 3 = Num (8106479329266893 / 2 ^ 47)
   \<and> pointX_double (Num 1920) 3 \<noteq> spec_x_double (Num 1920) 3"
  by (simp add: pointX_double_def segmentWidth_double_def spec_x_double_def double_of_real_def
      Let_def fl64_segmentWidth_1920 fl64_pointX_1920_3 fl64_5760 fl64_spec_x_1920_3)

text \<open>The two variants: the same inputs give the same amplitude and the same loop.\<close>

lemma getAmplitudeAtX_v2_same:
  "spec_sameWaveInputs props refs props2 refs2 \<Longrightarrow>
   getAmplitudeAtX_v2 props2 refs2 x = getAmplitudeAtX props refs x"
  by (simp add: spec_sameWaveInputs_def getAmplitudeAtX_v2_def getAmplitudeAtX_def)

lemma wavePathLoop_v2_step:
  assumes "spec_sameWaveInputs props refs props2 refs2" "i \<le> n"
  shows "wavePathLoop_v2 toStr props2 refs2 t w h n sw i path
   = wavePathLoop_v2 toStr props2 refs2 t w h n sw (Suc i)
       (path @ waveSegment toStr props refs t w h sw i)"
  using assms(2) getAmplitudeAtX_v2_same [OF assms(1)] assms(1)
  by (subst wavePathLoop_v2.simps) (simp add: waveSegment_def Let_def spec_sameWaveInputs_def)

lemma wavePathLoop_v2_exit:
  "\<not> i \<le> n \<Longrightarrow> wavePathLoop_v2 toStr props refs t w h n sw i path = path"
  by (subst wavePathLoop_v2.simps) simp

lemma wavePathLoop_v2_same:
  assumes same: "spec_sameWaveInputs props refs props2 refs2"
  shows "wavePathLoop_v2 toStr props2 refs2 t w h n sw i path
         = wavePathLoop toStr props refs t w h n sw i path"
proof (induction "Suc n - i" arbitrary: i path)
  case 0
  then have "\<not> i \<le> n"
    by simp
  then show ?case
    by (simp add: wavePathLoop_exit wavePathLoop_v2_exit)
next
  case (Suc k)
  then have le: "i \<le> n" and k: "k = Suc n - Suc i"
    by simp_all
  show ?case
    unfolding wavePathLoop_step [OF le] wavePathLoop_v2_step [OF same le]
    by (rule Suc.hyps(1) [OF k])
qed

text \<open>
  Claim C10. Given the same six configuration parameters, the same smoothed mouse
  position and the same influence factor, the second variant's \<open>generateWavePath\<close>
  returns, for the same time, width and height, the same path string as the first
  variant's.
\<close>

theorem generateWavePath_variants_agree:
  "spec_sameWaveInputs props refs props2 refs2 \<Longrightarrow>
   generateWavePath_v2 toStr props2 refs2 t w h = generateWavePath toStr props refs t w h"
  by (simp add: generateWavePath_v2_def generateWavePath_def wavePathLoop_v2_same)

text \<open>The defaults of the two variants, with the mouse at the centre, are such inputs.\<close>

theorem generateWavePath_variants_agree_witness:
  "spec_sameWaveInputs defaultProps refsMouseInside defaultProps_v2 refsMouseInside_v2
   \<and> generateWavePath_v2 exampleToStr defaultProps_v2 refsMouseInside_v2
        (Num 0) (Num 800) (Num 600)
     = generateWavePath exampleToStr defaultProps refsMouseInside (Num 0) (Num 800) (Num 600)"
proof -
  have same: "spec_sameWaveInputs defaultProps refsMouseInside defaultProps_v2 refsMouseInside_v2"
    by (simp add: spec_sameWaveInputs_def defaultProps_def defaultProps_v2_def
        refsMouseInside_def refsMouseInside_v2_def)
  show ?thesis
    using same generateWavePath_variants_agree [OF same] by (rule conjI)
qed

section \<open>The gradient position\<close>

text \<open>Moving from \<open>g\<close> towards a target by a factor in \<open>[0, 1]\<close> stays in the range of both.\<close>

lemma lerp_in_range:
  fixes lo hi g tgt l :: real
  assumes "lo \<le> g" "g \<le> hi" "lo \<le> tgt" "tgt \<le> hi" "0 \<le> l" "l \<le> 1"
  shows "lo \<le> g + (tgt - g) * l" "g + (tgt - g) * l \<le> hi"
proof -
  have eq: "g + (tgt - g) * l = (1 - l) * g + l * tgt"
    by (simp add: algebra_simps)
  have "(1 - l) * lo + l * lo \<le> (1 - l) * g + l * tgt"
    using assms by (intro add_mono mult_left_mono) simp_all
  then show "lo \<le> g + (tgt - g) * l"
    unfolding eq by (simp add: algebra_simps)
  have "(1 - l) * g + l * tgt \<le> (1 - l) * hi + l * hi"
    using assms by (intro add_mono mult_left_mono) simp_all
  then show "g + (tgt - g) * l \<le> hi"
    unfolding eq by (simp add: algebra_simps)
qed

lemma gradientTarget_in_range:
  fixes m w s e :: real
  assumes "0 \<le> m" "m \<le> w" "0 < w" "s \<le> e"
  shows "s * w \<le> m / w * (w * (e - s)) + w * s" "m / w * (w * (e - s)) + w * s \<le> e * w"
proof -
  have eq: "m / w * (w * (e - s)) = m * (e - s)"
    using assms by simp
  have "0 \<le> m * (e - s)" "m * (e - s) \<le> w * (e - s)"
    using assms by (simp_all add: mult_right_mono)
  then show "s * w \<le> m / w * (w * (e - s)) + w * s" "m / w * (w * (e - s)) + w * s \<le> e * w"
    unfolding eq by (simp_all add: algebra_simps)
qed

lemma rangeCenter_in_range:
  fixes w s e :: real
  assumes "0 \<le> w" "s \<le> e"
  shows "s * w \<le> w * (s + (e - s) / 2)" "w * (s + (e - s) / 2) \<le> e * w"
proof -
  have "s \<le> s + (e - s) / 2"
    using assms by simp
  moreover have "s + (e - s) / 2 \<le> e"
    using assms by (simp add: field_simps)
  ultimately have "w * s \<le> w * (s + (e - s) / 2)" "w * (s + (e - s) / 2) \<le> w * e"
    using assms by (simp_all add: mult_left_mono)
  then show "s * w \<le> w * (s + (e - s) / 2)" "w * (s + (e - s) / 2) \<le> e * w"
    by (simp_all add: mult.commute)
qed

text \<open>
  In the exact arithmetic of the number model, for a finite range and a finite, positive
  width, a frame keeps the smoothed gradient position inside the range, in the branch with
  the mouse and in the branch without. (On doubles the rounding of the last sum can leave
  the position just outside.)
\<close>

lemma animate_gradient_in_range:
  assumes fin: "isFinite (gradientRangeStart props)" "isFinite (gradientRangeEnd props)"
      "isFinite (width dimensions)"
    and pos: "Num 0 < width dimensions"
    and cond: "spec_gradientConditions props dimensions refs"
  shows "spec_gradientInRange props dimensions
           (smoothGradientXRef (fst (animate toStr props dimensions t (refs, nodes))))"
proof -
  obtain s e w where eqs: "gradientRangeStart props = Num s" "gradientRangeEnd props = Num e"
      "width dimensions = Num w"
    using fin by (cases "gradientRangeStart props"; cases "gradientRangeEnd props";
        cases "width dimensions") simp_all
  obtain l where l: "gradientLerpSpeed props = Num l"
    using cond by (cases "gradientLerpSpeed props") (simp_all add: spec_gradientConditions_def)
  obtain g where g: "smoothGradientXRef refs = Num g"
    using cond eqs by (cases "smoothGradientXRef refs")
      (simp_all add: spec_gradientConditions_def spec_gradientInRange_def)
  have w: "0 < w" and se: "s \<le> e" and l01: "0 \<le> l" "l \<le> 1"
    and gr: "s * w \<le> g" "g \<le> e * w"
    using pos cond eqs l g by (simp_all add: spec_gradientConditions_def spec_gradientInRange_def)
  show ?thesis
  proof (cases "targetMouseXRef refs")
    case None
    have new: "smoothGradientXRef (fst (animate toStr props dimensions t (refs, nodes)))
        = Num (g + (w * (s + (e - s) / 2) - g) * l)"
      by (simp add: animate_def None eqs l g Let_def minus_jsnum_def)
    show ?thesis
      unfolding new spec_gradientInRange_def eqs
      using lerp_in_range [OF gr rangeCenter_in_range [of w s e] l01] w se by simp
  next
    case (Some tm)
    then obtain m where m: "tm = Num m" and m0: "0 \<le> m" "m \<le> w"
      using cond eqs by (cases tm) (simp_all add: spec_gradientConditions_def)
    have new: "smoothGradientXRef (fst (animate toStr props dimensions t (refs, nodes)))
        = Num (g + (m / w * (w * (e - s)) + w * s - g) * l)"
      using w by (simp add: animate_def Some m eqs l g Let_def minus_jsnum_def)
    show ?thesis
      unfolding new spec_gradientInRange_def eqs
      using lerp_in_range [OF gr gradientTarget_in_range [OF m0 w se] l01] by simp
  qed
qed

text \<open>
  In a container 800 pixels wide, with the default props and the mouse at the centre, the
  conditions hold and the frame keeps the gradient in its range.
\<close>

lemma animate_gradient_in_range_example:
  "spec_gradientConditions defaultProps wideDimensions refsMouseInside
   \<and> spec_gradientInRange defaultProps wideDimensions
       (smoothGradientXRef
          (fst (animate exampleToStr defaultProps wideDimensions (Num 0)
                 (refsMouseInside, detachedNodes))))"
proof -
  have cond: "spec_gradientConditions defaultProps wideDimensions refsMouseInside"
    by (simp add: spec_gradientConditions_def spec_gradientInRange_def defaultProps_def
        wideDimensions_def refsMouseInside_def)
  have "isFinite (gradientRangeStart defaultProps)" "isFinite (gradientRangeEnd defaultProps)"
    "isFinite (width wideDimensions)" "Num 0 < width wideDimensions"
    by (simp_all add: defaultProps_def wideDimensions_def)
  then show ?thesis
    using cond animate_gradient_in_range [of defaultProps wideDimensions refsMouseInside]
    by simp
qed

text \<open>The mount effect starts the gradient inside its range.\<close>

lemma initSmoothedPositions_in_range:
  assumes "gradientRangeStart props = Num s" "gradientRangeEnd props = Num e" "s \<le> e"
    and "width dimensions = Num w" "0 \<le> w"
  shows "spec_gradientInRange props dimensions
           (smoothGradientXRef (initSmoothedPositions props (Some (width dimensions)) refs))"
  using assms rangeCenter_in_range [of w s e]
  by (simp add: initSmoothedPositions_def spec_gradientInRange_def Let_def minus_jsnum_def)

text \<open>
  The ref outlives the frame: once it holds \<open>NaN\<close>, every later frame leaves \<open>NaN\<close>
  there, whatever the width has become.
\<close>

lemma animate_gradient_NaN_persists:
  assumes "smoothGradientXRef refs = NaN"
  shows "smoothGradientXRef (fst (animate toStr props dimensions t (refs, nodes))) = NaN"
  using assms by (cases "targetMouseXRef refs") (simp_all add: animate_def Let_def)

text \<open>
  Claim C9. The smoothed gradient position is meant to stay inside
  \<open>[gradientRangeStart * width, gradientRangeEnd * width]\<close> after every frame. In the
  state the component starts from, a width of zero, the branch with the mouse divides the
  mouse position by the width: with the default props, the mouse on the left edge and the
  gradient position at zero, every condition of the claim holds before the frame, and the
  frame leaves \<open>NaN\<close> in \<open>smoothGradientXRef\<close>, outside the range. The redraw of the
  path in the same function is guarded by \<^verbatim>\<open>dimensions.width > 0\<close>; the update of the
  gradient is not.
\<close>

theorem animate_zero_width_gradient_NaN:
  "spec_gradientConditions defaultProps initialDimensions refsMouseAtLeftEdge
   \<and> smoothGradientXRef
       (fst (animate exampleToStr defaultProps initialDimensions (Num 0)
              (refsMouseAtLeftEdge, detachedNodes))) = NaN
   \<and> \<not> spec_gradientInRange defaultProps initialDimensions
         (smoothGradientXRef
            (fst (animate exampleToStr defaultProps initialDimensions (Num 0)
                   (refsMouseAtLeftEdge, detachedNodes))))"
  by (simp add: spec_gradientConditions_def spec_gradientInRange_def animate_def
      defaultProps_def initialDimensions_def refsMouseAtLeftEdge_def detachedNodes_def
      minus_jsnum_def Let_def)

section \<open>The scroll blur\<close>

text \<open>
  Claim C2. The filter and the text shadow the callback leaves on the element are a
  function of the element's top coordinate and the viewport height alone: two calls with
  the same top coordinate and the same viewport height, on any two documents and elements
  (whatever style earlier calls left there), both return normally and leave the same
  filter string and the same text-shadow string.
\<close>

theorem useScrollBlur_geometry_only:
  assumes "boundingClientRect_top (doc a) = boundingClientRect_top (doc' a')"
  shows "\<exists>after after'.
           useScrollBlur_callback toStr innerHeight (Some a) doc = Inr after
           \<and> useScrollBlur_callback toStr innerHeight (Some a') doc' = Inr after'
           \<and> filter_css (style (after a)) = filter_css (style (after' a'))
           \<and> textShadow (style (after a)) = textShadow (style (after' a'))"
  using assms by (simp add: useScrollBlur_callback_def member_of_def Let_def)

text \<open>
  A title with no style yet and a title a previous call blurred, both 700 pixels from the
  top of an 800 pixel viewport, end with the same two strings.
\<close>

theorem useScrollBlur_geometry_only_witness:
  "boundingClientRect_top (freshDocument 0) = boundingClientRect_top (blurredDocument 1)
   \<and> style (freshDocument 0) \<noteq> style (blurredDocument 1)
   \<and> (\<exists>after after'.
           useScrollBlur_callback exampleToStr (Num 800) (Some 0) freshDocument = Inr after
           \<and> useScrollBlur_callback exampleToStr (Num 800) (Some 1) blurredDocument = Inr after'
           \<and> filter_css (style (after 0)) = filter_css (style (after' 1))
           \<and> textShadow (style (after 0)) = textShadow (style (after' 1)))"
proof -
  have top: "boundingClientRect_top (freshDocument 0) = boundingClientRect_top (blurredDocument 1)"
    by (simp add: freshDocument_def blurredDocument_def)
  have differ: "style (freshDocument 0) \<noteq> style (blurredDocument 1)"
    by (simp add: freshDocument_def blurredDocument_def)
  show ?thesis
    using top differ
      useScrollBlur_geometry_only [where doc = freshDocument and a = 0
        and doc' = blurredDocument and a' = 1 and toStr = exampleToStr
        and innerHeight = "Num 800", OF top]
    by blast
qed

text \<open>
  Claim C5. When the ref is \<^verbatim>\<open>null\<close> the callback returns at once and leaves the
  document as it was: no element's filter or text shadow changes. Whatever the ref holds,
  the callback raises no exception: the one member access that could throw is behind the
  null check.
\<close>

theorem useScrollBlur_null_ref:
  "useScrollBlur_callback toStr innerHeight None elements = Inr elements
   \<and> (\<forall>ref_current.
         useScrollBlur_callback toStr innerHeight ref_current elements \<noteq> Inl TypeError)"
proof
  show "useScrollBlur_callback toStr innerHeight None elements = Inr elements"
    by (simp add: useScrollBlur_callback_def)
  show "\<forall>ref_current.
          useScrollBlur_callback toStr innerHeight ref_current elements \<noteq> Inl TypeError"
  proof
    fix ref_current
    show "useScrollBlur_callback toStr innerHeight ref_current elements \<noteq> Inl TypeError"
      by (cases ref_current) (simp_all add: useScrollBlur_callback_def member_of_def Let_def)
  qed
qed

section \<open>The language flag and the project list\<close>

text \<open>
  Claim C6. The toggle maps \<open>br\<close> to \<open>en\<close> and every other flag to \<open>br\<close>; for a
  flag in \<open>{br, en}\<close>, toggling twice gives the flag back.
\<close>

theorem toggleLang_involution:
  "(lang prefs = ''br'' \<longrightarrow> lang (toggleLang prefs) = ''en'')
   \<and> (lang prefs \<noteq> ''br'' \<longrightarrow> lang (toggleLang prefs) = ''br'')
   \<and> (lang prefs \<in> {''br'', ''en''} \<longrightarrow> lang (toggleLang (toggleLang prefs)) = lang prefs)"
  by (auto simp add: toggleLang_def setLang_def)

theorem toggleLang_involution_witness:
  "lang prefsBr = ''br'' \<and> lang (toggleLang prefsBr) = ''en''
   \<and> lang prefsOther \<noteq> ''br'' \<and> lang (toggleLang prefsOther) = ''br''
   \<and> lang prefsEn \<in> {''br'', ''en''} \<and> lang (toggleLang (toggleLang prefsEn)) = ''en''
   \<and> lang (toggleLang (toggleLang prefsBr)) = ''br''"
  using toggleLang_involution [of prefsBr] toggleLang_involution [of prefsOther]
    toggleLang_involution [of prefsEn]
  by (simp add: prefsBr_def prefsEn_def prefsOther_def)

text \<open>Each card carries its project unchanged, in the order of the list.\<close>

lemma Projects_cards_projects:
  "map p_prop (cards (fst (Projects prefs content)))
   = (if lang prefs = ''en'' then projectsEn content else projectsBr content)"
  by (simp add: Projects_def Let_def case_prod_unfold o_def)


lemma Projects_content: "snd (Projects prefs content) = content"
  by (simp add: Projects_def Let_def)

text \<open>
  Claim C7. The rendered project list is chosen by the language alone: the English list
  when the language is \<open>en\<close>, the Portuguese list for every other language; rendering
  leaves both lists as they were.
\<close>

theorem Projects_selected_by_lang:
  "(lang prefs = ''en'' \<longrightarrow>
      map p_prop (cards (fst (Projects prefs content))) = projectsEn content)
   \<and> (lang prefs \<noteq> ''en'' \<longrightarrow>
      map p_prop (cards (fst (Projects prefs content))) = projectsBr content)
   \<and> snd (Projects prefs content) = content"
  by (simp add: Projects_cards_projects Projects_content)

theorem Projects_selected_by_lang_witness:
  "lang prefsEn = ''en''
   \<and> map p_prop (cards (fst (Projects prefsEn exampleContent))) = projectsEn exampleContent
   \<and> lang prefsBr \<noteq> ''en'' \<and> lang prefsOther \<noteq> ''en''
   \<and> map p_prop (cards (fst (Projects prefsBr exampleContent))) = projectsBr exampleContent
   \<and> map p_prop (cards (fst (Projects prefsOther exampleContent))) = projectsBr exampleContent
   \<and> projectsBr exampleContent \<noteq> projectsEn exampleContent
   \<and> snd (Projects prefsBr exampleContent) = exampleContent"
  using Projects_selected_by_lang [of prefsEn exampleContent]
    Projects_selected_by_lang [of prefsBr exampleContent]
    Projects_selected_by_lang [of prefsOther exampleContent]
  by (simp add: exampleContent_def prefsBr_def prefsEn_def prefsOther_def)



end
